theory Spec2Isabelle
  imports Main "HOL-Library.Sublist"
begin

chapter \<open>Ask Gemini extension: the model\<close>

text \<open>
  A shallow embedding of the string processing, the selection handling and the
  quote/compose/send controller of \<^verbatim>\<open>content.js\<close> and of the display encoding of the
  settings popup (\<^verbatim>\<open>popup.js\<close>).

  JavaScript strings are sequences of code units; they are modelled as \<^typ>\<open>string\<close>,
  one \<^typ>\<open>char\<close> per code unit, so \<^verbatim>\<open>s.length\<close> is \<^term>\<open>length s\<close>.
\<close>

section \<open>Strings\<close>

definition NL :: char where
  "NL = CHR 0x0A"

definition BACKSLASH :: char where
  "BACKSLASH = CHR 0x5C"

definition SPACE :: char where
  "SPACE = CHR 0x20"

definition PIPE :: char where
  "PIPE = CHR ''|''"

text \<open>
  \<^verbatim>\<open>String.prototype.trim\<close> strips white space and line terminators from both ends,
  \<^verbatim>\<open>trimEnd\<close> from the end only. The code units below are the ones of that set that
  a \<^typ>\<open>char\<close> can hold: tab, line feed, vertical tab, form feed, carriage return,
  space and no-break space.
\<close>

definition isWhiteSpace :: "char \<Rightarrow> bool" where
  "isWhiteSpace c \<longleftrightarrow>
     c \<in> set [CHR 0x09, CHR 0x0A, CHR 0x0B, CHR 0x0C, CHR 0x0D, CHR 0x20, CHR 0xA0]"

definition trimStart :: "string \<Rightarrow> string" where
  "trimStart s = dropWhile isWhiteSpace s"

definition trimEnd :: "string \<Rightarrow> string" where
  "trimEnd s = rev (dropWhile isWhiteSpace (rev s))"

definition trim :: "string \<Rightarrow> string" where
  "trim s = trimEnd (trimStart s)"

text \<open>
  \<^verbatim>\<open>str.indexOf(pat)\<close> as a split of \<^verbatim>\<open>str\<close> at the first occurrence of
  \<^verbatim>\<open>pat\<close>: the text before it and the text after it.
\<close>

fun split_first :: "string \<Rightarrow> string \<Rightarrow> (string \<times> string) option" where
  "split_first pat [] = (if pat = [] then Some ([], []) else None)"
| "split_first pat (c # cs) =
     (if prefix pat (c # cs) then Some ([], drop (length pat) (c # cs))
      else map_option (\<lambda>(bef, aft). (c # bef, aft)) (split_first pat cs))"

text \<open>
  The replacement text of \<^verbatim>\<open>String.prototype.replace\<close> is a template
  (ECMAScript's GetSubstitution): \<^verbatim>\<open>$$\<close> stands for one dollar sign, \<^verbatim>\<open>$&\<close> for
  the matched text, \<^verbatim>\<open>$`\<close> for the text before the match and \<^verbatim>\<open>$'\<close> for the text
  after it. A string pattern has no capture groups, so \<^verbatim>\<open>$1\<close> and \<^verbatim>\<open>$<\<close> stand for
  themselves, as does a dollar sign before any other code unit.
\<close>

fun getSubstitution :: "string \<Rightarrow> string \<Rightarrow> string \<Rightarrow> string \<Rightarrow> string" where
  "getSubstitution matched bef aft (x # y # r) =
     (if x = CHR ''$'' \<and> y = CHR ''$'' then CHR ''$'' # getSubstitution matched bef aft r
      else if x = CHR ''$'' \<and> y = CHR ''&'' then matched @ getSubstitution matched bef aft r
      else if x = CHR ''$'' \<and> y = CHR 0x60 then bef @ getSubstitution matched bef aft r
      else if x = CHR ''$'' \<and> y = CHR 0x27 then aft @ getSubstitution matched bef aft r
      else x # getSubstitution matched bef aft (y # r))"
| "getSubstitution matched bef aft r = r"

text \<open>
  \<^verbatim>\<open>str.replace(pat, repl)\<close> with a string pattern: only the first occurrence is
  replaced, and a string without the pattern is returned as it is.
\<close>

definition js_replace :: "string \<Rightarrow> string \<Rightarrow> string \<Rightarrow> string" where
  "js_replace str pat repl =
     (case split_first pat str of
        None \<Rightarrow> str
      | Some (bef, aft) \<Rightarrow> bef @ getSubstitution pat bef aft repl @ aft)"

text \<open>
  Whether a string holds one of the four patterns of a replacement template that a string
  pattern gives a meaning: a dollar sign directly followed by a dollar sign, an ampersand,
  a backquote or a quote.
\<close>

fun dollarPattern :: "string \<Rightarrow> bool" where
  "dollarPattern (x # y # r) =
     ((x = CHR ''$'' \<and> y \<in> set [CHR ''$'', CHR ''&'', CHR 0x60, CHR 0x27]) \<or>
      dollarPattern (y # r))"
| "dollarPattern r = False"

text \<open>The number of positions of a string at which a pattern occurs.\<close>

fun occurrences :: "string \<Rightarrow> string \<Rightarrow> nat" where
  "occurrences pat [] = (if pat = [] then 1 else 0)"
| "occurrences pat (c # cs) = (if prefix pat (c # cs) then 1 else 0) + occurrences pat cs"

text \<open>
  \<^verbatim>\<open>raw.replace(/\n{3,}/g, "\n\n")\<close> in \<^verbatim>\<open>extractTextWithMath\<close>: the regular
  expression is greedy, so at a line feed that starts a run of three or more the whole run
  is matched and replaced by two line feeds; at any other position the scan moves on by
  one code unit.
\<close>

function collapseBlankLines :: "string \<Rightarrow> string" where
  "collapseBlankLines [] = []"
| "collapseBlankLines (c # cs) =
     (if c = NL \<and> 2 \<le> length (takeWhile (\<lambda>x. x = NL) cs)
      then NL # NL # collapseBlankLines (dropWhile (\<lambda>x. x = NL) cs)
      else c # collapseBlankLines cs)"
  by pat_completeness auto
termination
  by (relation "measure length") (auto simp: length_dropWhile_le less_Suc_eq_le)


text \<open>
  \<^verbatim>\<open>s.replace(/\n+/g, " ")\<close> in \<^verbatim>\<open>tableToMarkdown\<close>: every run of line feeds becomes
  one space.
\<close>

function replaceNewlineRuns :: "string \<Rightarrow> string" where
  "replaceNewlineRuns [] = []"
| "replaceNewlineRuns (c # cs) =
     (if c = NL then SPACE # replaceNewlineRuns (dropWhile (\<lambda>x. x = NL) cs)
      else c # replaceNewlineRuns cs)"
  by pat_completeness auto
termination
  by (relation "measure length") (auto simp: length_dropWhile_le less_Suc_eq_le)

text \<open>\<^verbatim>\<open>s.includes(pat)\<close>, written \<^verbatim>\<open>s.indexOf(pat) !== -1\<close> in the source.\<close>

definition includes_str :: "string \<Rightarrow> string \<Rightarrow> bool" where
  "includes_str s pat \<longleftrightarrow> split_first pat s \<noteq> None"

text \<open>\<^verbatim>\<open>xs.join(sep)\<close> and \<^verbatim>\<open>s.split(c)\<close> for a separator of one code unit.\<close>

fun join :: "string \<Rightarrow> string list \<Rightarrow> string" where
  "join sep [] = []"
| "join sep [x] = x"
| "join sep (x # y # ys) = x @ sep @ join sep (y # ys)"

fun split_on :: "char \<Rightarrow> string \<Rightarrow> string list" where
  "split_on c [] = [[]]"
| "split_on c (x # xs) =
     (if x = c then [] # split_on c xs
      else (case split_on c xs of [] \<Rightarrow> [[x]] | l # ls \<Rightarrow> (x # l) # ls))"

section \<open>The settings popup\<close>

text \<open>
  \<^verbatim>\<open>toDisplay\<close> is \<^verbatim>\<open>str.replace(/\n/g, "\\n")\<close>: every line feed becomes a
  backslash followed by the letter n. \<^verbatim>\<open>fromDisplay\<close> is
  \<^verbatim>\<open>str.replace(/\\n/g, "\n")\<close>: scanning from the left, every backslash followed by
  the letter n becomes one line feed.
\<close>

fun toDisplay :: "string \<Rightarrow> string" where
  "toDisplay [] = []"
| "toDisplay (c # cs) =
     (if c = NL then BACKSLASH # CHR ''n'' # toDisplay cs else c # toDisplay cs)"

fun fromDisplay :: "string \<Rightarrow> string" where
  "fromDisplay (a # b # cs) =
     (if a = BACKSLASH \<and> b = CHR ''n'' then NL # fromDisplay cs
      else a # fromDisplay (b # cs))"
| "fromDisplay cs = cs"

text \<open>Whether a string holds a backslash directly followed by the letter n.\<close>

fun contains_backslash_n :: "string \<Rightarrow> bool" where
  "contains_backslash_n (a # b # cs) =
     ((a = BACKSLASH \<and> b = CHR ''n'') \<or> contains_backslash_n (b # cs))"
| "contains_backslash_n cs = False"

section \<open>The citation template\<close>

definition DEFAULT_CITATION_FORMAT :: string where
  "DEFAULT_CITATION_FORMAT =
     ''Regarding the following selected content:'' @ [NL] @
     ''------'' @ [NL] @
     ''[SELECTED]'' @ [NL] @
     ''------'' @ [NL]"

definition PLACEHOLDER :: string where
  "PLACEHOLDER = ''[SELECTED]''"

text \<open>
  \<^verbatim>\<open>citationFormat.replace("[SELECTED]", quotedText)\<close>, the citation of
  \<^verbatim>\<open>composeAndSend\<close> and of \<^verbatim>\<open>injectTextToInput\<close>.
\<close>

definition citation :: "string \<Rightarrow> string \<Rightarrow> string" where
  "citation citationFormat quotedText = js_replace citationFormat PLACEHOLDER quotedText"

text \<open>
  The message of \<^verbatim>\<open>composeAndSend\<close>: the citation, a line feed and the user's input,
  or the citation alone with its trailing white space removed when the input is empty.
\<close>

definition fullMessage :: "string \<Rightarrow> string \<Rightarrow> string \<Rightarrow> string" where
  "fullMessage citationFormat quotedText userInput =
     (let c = citation citationFormat quotedText
      in if userInput \<noteq> [] then c @ [NL] @ userInput else trimEnd c)"

section \<open>The document tree\<close>

text \<open>
  An element as the handlers read it: its tag name in lower case (the source compares
  \<^verbatim>\<open>tagName.toLowerCase()\<close>, and the names it looks for are in lower case), its class
  list and its attributes. An element is an HTML element or an element of another
  namespace, as the elements of SVG and MathML are: the \<^verbatim>\<open>tagName\<close> of an HTML
  element is in upper case and that of a foreign element is not, and a selector compares
  the values of some attributes of an HTML element without regard to case. A node of a
  cloned fragment is a text node, an element with its children, a document fragment, or a
  node of another type (a comment).
\<close>

datatype elem =
    isHTML: Elem (tagName: string) (classList: "string list")
      (attrs: "(string \<times> string) list")
  | ForeignElem (tagName: string) (classList: "string list")
      (attrs: "(string \<times> string) list")

datatype node =
    TextNode string
  | Element elem "node list"
  | DocumentFragment "node list"
  | OtherNode

definition getAttribute :: "elem \<Rightarrow> string \<Rightarrow> string option" where
  "getAttribute e name = map_of (attrs e) name"

text \<open>
  The selectors of the source are lists of compound selectors without combinators: a
  compound is a conjunction of tag, class and attribute tests, a selector (a comma
  separated list) matches when one of its compounds does. In an HTML document the value
  of an attribute selector is compared ASCII case-insensitively on an HTML element when
  the attribute is one of a fixed list, \<^verbatim>\<open>type\<close> among them, and exactly otherwise.
\<close>

definition asciiLower :: "char \<Rightarrow> char" where
  "asciiLower c =
     (case map_of (zip ''ABCDEFGHIJKLMNOPQRSTUVWXYZ'' ''abcdefghijklmnopqrstuvwxyz'') c of
        Some l \<Rightarrow> l
      | None \<Rightarrow> c)"

definition CASE_INSENSITIVE_ATTRS :: "string list" where
  "CASE_INSENSITIVE_ATTRS = [''accept'', ''accept-charset'', ''align'', ''alink'', ''axis'',
     ''bgcolor'', ''charset'', ''checked'', ''clear'', ''codetype'', ''color'', ''compact'',
     ''declare'', ''defer'', ''dir'', ''direction'', ''disabled'', ''enctype'', ''face'',
     ''frame'', ''hreflang'', ''http-equiv'', ''lang'', ''language'', ''link'', ''media'',
     ''method'', ''multiple'', ''nohref'', ''noresize'', ''noshade'', ''nowrap'',
     ''readonly'', ''rel'', ''rev'', ''rules'', ''scope'', ''scrolling'', ''selected'',
     ''shape'', ''target'', ''text'', ''type'', ''valign'', ''valuetype'', ''vlink'']"

datatype simple_selector = Tag string | Class string | HasAttr string | AttrEq string string

fun matches_simple :: "simple_selector \<Rightarrow> elem \<Rightarrow> bool" where
  "matches_simple (Tag t) e = (tagName e = t)"
| "matches_simple (Class c) e = (c \<in> set (classList e))"
| "matches_simple (HasAttr a) e = (getAttribute e a \<noteq> None)"
| "matches_simple (AttrEq a v) e =
     (case getAttribute e a of
        None \<Rightarrow> False
      | Some x \<Rightarrow>
          if isHTML e \<and> a \<in> set CASE_INSENSITIVE_ATTRS
          then map asciiLower x = map asciiLower v
          else x = v)"

type_synonym selector = "simple_selector list list"

definition matches :: "selector \<Rightarrow> elem \<Rightarrow> bool" where
  "matches sel e = list_ex (\<lambda>compound. list_all (\<lambda>s. matches_simple s e) compound) sel"

fun childNodes :: "node \<Rightarrow> node list" where
  "childNodes (Element e ch) = ch"
| "childNodes (DocumentFragment ch) = ch"
| "childNodes n = []"

text \<open>
  The elements of a subtree in document order, and \<^verbatim>\<open>querySelectorAll\<close>: the
  descendants of a node that match, in document order (the node itself is not among them).
\<close>

fun elements :: "node \<Rightarrow> node list" where
  "elements (Element e ch) = Element e ch # concat (map elements ch)"
| "elements (DocumentFragment ch) = concat (map elements ch)"
| "elements n = []"

definition descendants :: "node \<Rightarrow> node list" where
  "descendants n = concat (map elements (childNodes n))"

fun node_matches :: "selector \<Rightarrow> node \<Rightarrow> bool" where
  "node_matches sel (Element e ch) = matches sel e"
| "node_matches sel n = False"

definition querySelectorAll :: "selector \<Rightarrow> node \<Rightarrow> node list" where
  "querySelectorAll sel n = filter (node_matches sel) (descendants n)"

definition querySelector :: "selector \<Rightarrow> node \<Rightarrow> node option" where
  "querySelector sel n = (case querySelectorAll sel n of [] \<Rightarrow> None | x # xs \<Rightarrow> Some x)"

fun textContent :: "node \<Rightarrow> string" where
  "textContent (TextNode s) = s"
| "textContent (Element e ch) = concat (map textContent ch)"
| "textContent (DocumentFragment ch) = concat (map textContent ch)"
| "textContent OtherNode = []"

section \<open>Text of a fragment and Markdown tables\<close>

definition BLOCK_TAGS :: "string list" where
  "BLOCK_TAGS = [''p'', ''div'', ''h1'', ''h2'', ''h3'', ''h4'', ''h5'', ''h6'',
     ''li'', ''blockquote'', ''pre'', ''hr'', ''section'', ''article'']"

text \<open>
  The second half of \<^verbatim>\<open>tableToMarkdown\<close>, on the matrix of cell texts: the column
  count is the length of the longest row, short rows are padded with empty cells, a
  column is as wide as its longest cell and at least 3, and the lines are the header
  (row 0), the separator of dashes and the remaining rows, joined by line feeds.
\<close>

definition colCountOf :: "string list list \<Rightarrow> nat" where
  "colCountOf matrix =
     foldl (\<lambda>colCount row. if length row > colCount then length row else colCount) 0 matrix"

definition padRow :: "nat \<Rightarrow> string list \<Rightarrow> string list" where
  "padRow colCount row = row @ replicate (colCount - length row) []"

definition columnWidth :: "string list list \<Rightarrow> nat \<Rightarrow> nat" where
  "columnWidth matrix c =
     foldl (\<lambda>mx row. if length (row ! c) > mx then length (row ! c) else mx) 3 matrix"

definition pad :: "string \<Rightarrow> nat \<Rightarrow> string" where
  "pad s w = s @ replicate (w - length s) SPACE"

definition formatRow :: "nat list \<Rightarrow> string list \<Rightarrow> string" where
  "formatRow widths row =
     ''| '' @ join '' | '' (map (\<lambda>i. pad (row ! i) (widths ! i)) [0..<length row]) @ '' |''"

definition separatorLine :: "nat list \<Rightarrow> string" where
  "separatorLine widths =
     ''| '' @ join '' | '' (map (\<lambda>w. replicate w (CHR ''-'')) widths) @ '' |''"

definition tableLines :: "string list list \<Rightarrow> string list" where
  "tableLines matrix0 =
     (let colCount = colCountOf matrix0;
          matrix = map (padRow colCount) matrix0;
          widths = map (columnWidth matrix) [0..<colCount]
      in case matrix of
           [] \<Rightarrow> []
         | header # rest \<Rightarrow>
             [formatRow widths header, separatorLine widths] @ map (formatRow widths) rest)"

definition renderTable :: "string list list \<Rightarrow> string" where
  "renderTable matrix0 = (if matrix0 = [] then [] else join [NL] (tableLines matrix0))"

text \<open>The text of a cell: trimmed, runs of line feeds replaced by one space.\<close>

definition cellText :: "string \<Rightarrow> string" where
  "cellText s = replaceNewlineRuns (trim s)"

text \<open>
  \<^verbatim>\<open>getTextFromFragment\<close> and \<^verbatim>\<open>tableToMarkdown\<close> call each other: a table inside
  a fragment is rendered as Markdown between two line feeds, and the text of a table
  cell is the text of the cell's subtree. The rows of a table are all its \<^verbatim>\<open>tr\<close>
  descendants, the cells of a row all its \<^verbatim>\<open>th\<close> and \<^verbatim>\<open>td\<close> descendants.
\<close>

function getTextFromFragment :: "node \<Rightarrow> string"
  and tableToMarkdown :: "node \<Rightarrow> string" where
  "getTextFromFragment (TextNode s) = s"
| "getTextFromFragment OtherNode = []"
| "getTextFromFragment (DocumentFragment ch) = concat (map getTextFromFragment ch)"
| "getTextFromFragment (Element e ch) =
     (if tagName e = ''table'' then [NL] @ tableToMarkdown (Element e ch) @ [NL]
      else if tagName e = ''br'' then [NL]
      else if tagName e = ''style'' \<or> tagName e = ''script'' then []
      else
        (let result = concat (map getTextFromFragment ch)
         in if tagName e \<in> set BLOCK_TAGS \<and> result \<noteq> [] \<and> last result \<noteq> NL
            then result @ [NL] else result))"
| "tableToMarkdown tableEl =
     (let rows = querySelectorAll [[Tag ''tr'']] tableEl
      in if rows = [] then []
         else renderTable
           (map (\<lambda>tr. map (\<lambda>cell. cellText (getTextFromFragment cell))
                          (querySelectorAll [[Tag ''th''], [Tag ''td'']] tr))
                rows))"
  by pat_completeness auto
termination
proof -
  have el: "size c \<le> size n" if "c \<in> set (elements n)" for c n
    using that
  proof (induction n arbitrary: c)
    case (Element e ch)
    show ?case
    proof (cases "c = Element e ch")
      case True
      then show ?thesis by simp
    next
      case False
      with Element.prems obtain x where x: "x \<in> set ch" "c \<in> set (elements x)"
        by auto
      from Element.IH[OF x] have "size c \<le> size x" .
      with x(1) have "size c \<le> size_list size ch"
        by (rule size_list_estimation')
      then show ?thesis by simp
    qed
  next
    case (DocumentFragment ch)
    then obtain x where x: "x \<in> set ch" "c \<in> set (elements x)"
      by auto
    from DocumentFragment.IH[OF x] have "size c \<le> size x" .
    with x(1) have "size c \<le> size_list size ch"
      by (rule size_list_estimation')
    then show ?case by simp
  qed simp_all
  have de: "size c < size n" if "c \<in> set (descendants n)" for c n
  proof (cases n)
    case (Element e ch)
    with that obtain x where x: "x \<in> set ch" "c \<in> set (elements x)"
      by (auto simp: descendants_def)
    from x(1) el[OF x(2)] have "size c \<le> size_list size ch"
      by (rule size_list_estimation')
    then show ?thesis
      by (simp add: Element)
  next
    case (DocumentFragment ch)
    with that obtain x where x: "x \<in> set ch" "c \<in> set (elements x)"
      by (auto simp: descendants_def)
    from x(1) el[OF x(2)] have "size c \<le> size_list size ch"
      by (rule size_list_estimation')
    then show ?thesis
      by (simp add: DocumentFragment)
  qed (use that in \<open>simp_all add: descendants_def\<close>)
  have qs: "size c < size n" if "c \<in> set (querySelectorAll sel n)" for c sel n
    using that by (simp add: querySelectorAll_def de)
  let ?m = "\<lambda>x. case x of Inl n \<Rightarrow> 2 * size n + 1 | Inr n \<Rightarrow> 2 * size n"
  show ?thesis
  proof (relation "measure ?m")
    show "wf (measure ?m)"
      by simp
  next
    fix ch :: "node list" and x
    assume "x \<in> set ch"
    then show "(Inl x, Inl (DocumentFragment ch)) \<in> measure ?m"
      using size_list_estimation'[of x ch "size x" size] by simp
  next
    fix e ch
    show "(Inr (Element e ch), Inl (Element e ch)) \<in> measure ?m"
      by simp
  next
    fix e and ch :: "node list" and x
    assume "x \<in> set ch"
    then show "(Inl x, Inl (Element e ch)) \<in> measure ?m"
      using size_list_estimation'[of x ch "size x" size] by simp
  next
    fix tableEl rows tr cell
    assume "rows = querySelectorAll [[Tag ''tr'']] tableEl" "tr \<in> set rows"
      "cell \<in> set (querySelectorAll [[Tag ''th''], [Tag ''td'']] tr)"
    then have "size cell < size tr" "size tr < size tableEl"
      by (auto intro: qs)
    then show "(Inl cell, Inr tableEl) \<in> measure ?m"
      by simp
  qed
qed

text \<open>The matrix of cell texts that \<^verbatim>\<open>tableToMarkdown\<close> builds, one row per \<^verbatim>\<open>tr\<close>.\<close>

definition tableMatrix :: "node \<Rightarrow> string list list" where
  "tableMatrix tableEl =
     map (\<lambda>tr. map (\<lambda>cell. cellText (getTextFromFragment cell))
                    (querySelectorAll [[Tag ''th''], [Tag ''td'']] tr))
         (querySelectorAll [[Tag ''tr'']] tableEl)"

text \<open>
  The fields of a line of a Markdown table stand between its pipes: a line with \<open>n + 1\<close>
  pipes has \<open>n\<close> fields.
\<close>

definition fieldCount :: "string \<Rightarrow> nat" where
  "fieldCount line = count_list line PIPE - 1"

section \<open>Selections\<close>

text \<open>
  A node of the page, as a handler sees it through \<^verbatim>\<open>parentElement\<close>,
  \<^verbatim>\<open>matches\<close> and \<^verbatim>\<open>closest\<close>: a text node with the chain of its ancestor elements
  (the parent first; empty when the text node has no parent element), an element with the
  chain of its ancestors, or the document. An element of the page carries the elements
  under it that have a \<^verbatim>\<open>data-math\<close> attribute, in document order, each with the
  answer \<^verbatim>\<open>range.intersectsNode\<close> gives for it (the call may throw); the document
  carries the same list.
\<close>

datatype intersect = Intersects | Disjoint | IntersectThrows

datatype host_elem = HostElem (el: elem) (dataMathEls: "(elem \<times> intersect) list")

datatype dom_ref =
    TextRef "host_elem list"
  | ElementRef host_elem "host_elem list"
  | DocumentRef "(elem \<times> intersect) list"

text \<open>
  \<^verbatim>\<open>if (node.nodeType === Node.TEXT_NODE) node = node.parentElement\<close>: the result is
  \<^verbatim>\<open>null\<close> for a text node without a parent element.
\<close>

fun parentElementIfText :: "dom_ref \<Rightarrow> dom_ref option" where
  "parentElementIfText (TextRef []) = None"
| "parentElementIfText (TextRef (p # ps)) = Some (ElementRef p ps)"
| "parentElementIfText n = Some n"

text \<open>\<^verbatim>\<open>el.closest(sel)\<close> on the chain that starts with \<^verbatim>\<open>el\<close> itself.\<close>

definition closest :: "selector \<Rightarrow> host_elem list \<Rightarrow> host_elem option" where
  "closest sel chain = find (\<lambda>h. matches sel (el h)) chain"

definition isInsideSelector :: "dom_ref \<Rightarrow> selector list \<Rightarrow> bool" where
  "isInsideSelector node selectors =
     (case parentElementIfText node of
        Some (ElementRef e anc) \<Rightarrow>
          list_ex (\<lambda>selector. matches selector (el e) \<or> closest selector (e # anc) \<noteq> None)
            selectors
      | _ \<Rightarrow> False)"

definition RESPONSE_SELECTORS :: "selector list" where
  "RESPONSE_SELECTORS = [
     [[Class ''model-response-text'']],
     [[Class ''response-container-content'']],
     [[Class ''response-container'']],
     [[Class ''message-content'']],
     [[Class ''markdown-main-panel'']],
     [[Class ''model-response'']],
     [[AttrEq ''data-message-author-role'' ''model'']],
     [[Class ''markdown'']],
     [[Class ''markdown-body'']]]"

definition EXCLUDE_SELECTORS :: "selector list" where
  "EXCLUDE_SELECTORS = [
     [[Tag ''rich-textarea'']],
     [[Class ''text-input-field'']],
     [[Class ''input-area-container'']],
     [[Class ''input-area'']],
     [[Tag ''button'']],
     [[AttrEq ''role'' ''button'']],
     [[Class ''toolbar'']],
     [[Class ''action-bar'']]]"

text \<open>
  Exceptions are values. A range has its common ancestor container, the container of its
  start point and the result of \<^verbatim>\<open>cloneContents()\<close>, which the DOM lets fail with a
  \<^verbatim>\<open>HierarchyRequestError\<close> (a range that holds a doctype). A selection has its ranges
  (\<^verbatim>\<open>rangeCount\<close> is their number, \<^verbatim>\<open>getRangeAt(0)\<close> the first) and its visual text,
  \<^verbatim>\<open>selection.toString()\<close>. A \<^verbatim>\<open>null\<close> selection is \<^term>\<open>None\<close>.
\<close>

datatype js_error = TypeError | HierarchyRequestError | IndexSizeError

datatype range = Range (commonAncestorContainer: dom_ref) (startContainer: dom_ref)
  (cloneContents: "js_error + node")

datatype selection = Selection (ranges: "range list") (toString: string)

definition isValidSelectionArea :: "selection option \<Rightarrow> bool" where
  "isValidSelectionArea selection =
     (case selection of
        None \<Rightarrow> False
      | Some s \<Rightarrow>
          (case ranges s of
             [] \<Rightarrow> False
           | r # rs \<Rightarrow>
               (let container = commonAncestorContainer r
                in if isInsideSelector container EXCLUDE_SELECTORS then False
                   else if isInsideSelector container RESPONSE_SELECTORS then True
                   else True)))"

text \<open>
  The element chain of a node, and the one fact about a range that the properties below
  use: its common ancestor container is the start container or one of its ancestors.
\<close>

definition element_chain :: "dom_ref \<Rightarrow> host_elem list" where
  "element_chain node =
     (case parentElementIfText node of Some (ElementRef e anc) \<Rightarrow> e # anc | _ \<Rightarrow> [])"

definition wf_range :: "range \<Rightarrow> bool" where
  "wf_range r \<longleftrightarrow>
     suffix (element_chain (commonAncestorContainer r)) (element_chain (startContainer r))"

section \<open>Math extraction\<close>

definition inlineMath :: "string \<Rightarrow> string" where
  "inlineMath latex = ''$'' @ latex @ ''$''"

definition displayMath :: "string \<Rightarrow> string" where
  "displayMath latex = ''$$'' @ latex @ ''$$''"

definition MATH_SELECTOR :: selector where
  "MATH_SELECTOR = [[Class ''katex''], [Class ''katex-display''], [Class ''MathJax''],
     [Tag ''mjx-container''], [Tag ''math''], [Class ''math-inline''], [Class ''math-block''],
     [HasAttr ''data-math'']]"

definition ORPHAN_SELECTOR :: selector where
  "ORPHAN_SELECTOR = [[Class ''katex-display''], [Class ''katex''], [Class ''katex-html'']]"

definition TEX_ANNOTATION :: selector where
  "TEX_ANNOTATION = [[Tag ''annotation'', AttrEq ''encoding'' ''application/x-tex'']]"

definition TEX_SCRIPT :: selector where
  "TEX_SCRIPT = [[Tag ''script'', AttrEq ''type'' ''math/tex'']]"

definition HIDDEN_SELECTOR :: selector where
  "HIDDEN_SELECTOR = [[Class ''katex-mathml''], [Class ''MathJax_Preview''], [Class ''katex-html'']]"

text \<open>
  Phase 0 of \<^verbatim>\<open>extractTextWithMath\<close>: when the common ancestor of the range lies in an
  element found by \<^verbatim>\<open>closest("[data-math]") || closest(".math-block") ||
  closest(".math-inline")\<close> whose \<^verbatim>\<open>data-math\<close> attribute is a non-empty string, that
  string is returned in dollar signs, doubled for an element of class \<^verbatim>\<open>math-block\<close>.
\<close>

definition mathParent :: "host_elem list \<Rightarrow> host_elem option" where
  "mathParent chain =
     (case closest [[HasAttr ''data-math'']] chain of
        Some m \<Rightarrow> Some m
      | None \<Rightarrow>
          (case closest [[Class ''math-block'']] chain of
             Some m \<Rightarrow> Some m
           | None \<Rightarrow> closest [[Class ''math-inline'']] chain))"

definition directLatex :: "range \<Rightarrow> string option" where
  "directLatex r =
     (case parentElementIfText (commonAncestorContainer r) of
        Some (ElementRef e anc) \<Rightarrow>
          (case mathParent (e # anc) of
             Some m \<Rightarrow>
               (case getAttribute (el m) ''data-math'' of
                  Some latex \<Rightarrow>
                    if latex \<noteq> []
                    then Some (if ''math-block'' \<in> set (classList (el m))
                               then displayMath latex else inlineMath latex)
                    else None
                | None \<Rightarrow> None)
           | None \<Rightarrow> None)
      | _ \<Rightarrow> None)"

text \<open>
  \<^verbatim>\<open>annotateMathFromOriginalDOM\<close>. The orphans are the elements of the fragment that
  match \<^verbatim>\<open>.katex-display, .katex, .katex-html\<close>. For a math element of the page that
  intersects the range, every orphan that is not yet inside an element with a
  \<^verbatim>\<open>data-math\<close> attribute is wrapped in a new element that carries the attribute.
  The orphans are visited in document order, so an orphan inside a wrapped orphan is no
  longer wrapped: the walk below wraps the outermost orphans and does not descend into
  elements that have the attribute.
\<close>

fun wrapOrphans :: "string \<Rightarrow> bool \<Rightarrow> node \<Rightarrow> node" where
  "wrapOrphans latex isBlock (Element e ch) =
     (if getAttribute e ''data-math'' \<noteq> None then Element e ch
      else if matches ORPHAN_SELECTOR e
      then Element (Elem (if isBlock then ''div'' else ''span'')
                         [if isBlock then ''math-block'' else ''math-inline'']
                         [(''data-math'', latex)])
                   [Element e ch]
      else Element e (map (wrapOrphans latex isBlock) ch))"
| "wrapOrphans latex isBlock (DocumentFragment ch) =
     DocumentFragment (map (wrapOrphans latex isBlock) ch)"
| "wrapOrphans latex isBlock n = n"

text \<open>
  The search root: from the container up to ten parents, stopping at the first parent of
  class \<^verbatim>\<open>markdown\<close>, \<^verbatim>\<open>response-container\<close> or \<^verbatim>\<open>model-response-text\<close>.
\<close>

definition stopsSearch :: "host_elem \<Rightarrow> bool" where
  "stopsSearch h \<longleftrightarrow>
     ''markdown'' \<in> set (classList (el h)) \<or>
     ''response-container'' \<in> set (classList (el h)) \<or>
     ''model-response-text'' \<in> set (classList (el h))"

fun searchRoot :: "nat \<Rightarrow> host_elem \<Rightarrow> host_elem list \<Rightarrow> host_elem" where
  "searchRoot 0 e anc = e"
| "searchRoot (Suc i) e [] = e"
| "searchRoot (Suc i) e (p # ps) = (if stopsSearch p then p else searchRoot i p ps)"

text \<open>
  One round of \<^verbatim>\<open>mathEls.forEach\<close>: the body runs in a \<^verbatim>\<open>try\<close> whose \<^verbatim>\<open>catch\<close>
  is empty, so a math element for which \<^verbatim>\<open>intersectsNode\<close> throws is skipped.
\<close>

definition annotateWith :: "node \<Rightarrow> elem \<times> intersect \<Rightarrow> node" where
  "annotateWith fragment m =
     (case m of
        (mathEl, Intersects) \<Rightarrow>
          (case getAttribute mathEl ''data-math'' of
             Some latex \<Rightarrow> wrapOrphans latex (''math-block'' \<in> set (classList mathEl)) fragment
           | None \<Rightarrow> fragment)
      | _ \<Rightarrow> fragment)"

text \<open>
  With orphans in the fragment and a common ancestor that is a text node without a parent
  element, \<^verbatim>\<open>searchRoot.parentElement\<close> reads a property of \<^verbatim>\<open>null\<close>: a
  \<^verbatim>\<open>TypeError\<close>.
\<close>

definition annotateMathFromOriginalDOM :: "node \<Rightarrow> range \<Rightarrow> js_error + node" where
  "annotateMathFromOriginalDOM fragment r =
     (if querySelectorAll ORPHAN_SELECTOR fragment = [] then Inr fragment
      else
        (case parentElementIfText (commonAncestorContainer r) of
           None \<Rightarrow> Inl TypeError
         | Some (ElementRef e anc) \<Rightarrow>
             Inr (foldl annotateWith fragment (dataMathEls (searchRoot 10 e anc)))
         | Some (DocumentRef mathEls) \<Rightarrow> Inr (foldl annotateWith fragment mathEls)
         | Some (TextRef anc) \<Rightarrow> Inl TypeError))"

text \<open>
  \<^verbatim>\<open>replaceMathElements\<close> runs seven passes over the fragment. A pass takes the static
  list \<^verbatim>\<open>root.querySelectorAll(sel)\<close>, in document order, and replaces matching
  elements by text nodes. Replacing an element detaches its subtree, and what a pass then
  does to the elements of that subtree no longer reaches the fragment; an element that
  matches but is not replaced keeps its children in the fragment. So a pass is a walk
  from the root that replaces an element or else descends into its children.
\<close>

fun replaceWhere :: "(elem \<Rightarrow> node list \<Rightarrow> string option) \<Rightarrow> node \<Rightarrow> node" where
  "replaceWhere f (Element e ch) =
     (case f e ch of
        Some text \<Rightarrow> TextNode text
      | None \<Rightarrow> Element e (map (replaceWhere f) ch))"
| "replaceWhere f (DocumentFragment ch) = DocumentFragment (map (replaceWhere f) ch)"
| "replaceWhere f n = n"

text \<open>Passes 0a and 0b: \<^verbatim>\<open>.math-block[data-math]\<close> and \<^verbatim>\<open>.math-inline[data-math]\<close>.\<close>

definition dataMathText ::
  "string \<Rightarrow> (string \<Rightarrow> string) \<Rightarrow> elem \<Rightarrow> node list \<Rightarrow> string option" where
  "dataMathText cls wrap e ch =
     (if matches [[Class cls, HasAttr ''data-math'']] e
      then (case getAttribute e ''data-math'' of
              Some latex \<Rightarrow> if latex \<noteq> [] then Some (wrap latex) else None
            | None \<Rightarrow> None)
      else None)"

text \<open>
  Passes 1 and 2: \<^verbatim>\<open>.katex-display\<close> and \<^verbatim>\<open>.katex\<close>. The source is the text of
  the TeX annotation inside the element when there is one, else the \<^verbatim>\<open>data-math\<close>
  attribute of \<^verbatim>\<open>el.closest("[data-math]")\<close>, which the walk carries along as
  \<open>dataMath\<close>; the element is replaced when the source is a non-empty string.
\<close>

fun replaceKatex :: "string \<Rightarrow> (string \<Rightarrow> string) \<Rightarrow> string option \<Rightarrow> node \<Rightarrow> node" where
  "replaceKatex cls wrap dataMath (Element e ch) =
     (let dataMath' = (case getAttribute e ''data-math'' of Some v \<Rightarrow> Some v | None \<Rightarrow> dataMath);
          latex = (case querySelector TEX_ANNOTATION (Element e ch) of
                     Some annotation \<Rightarrow> Some (textContent annotation)
                   | None \<Rightarrow> dataMath')
      in if cls \<in> set (classList e) \<and> latex \<noteq> None \<and> latex \<noteq> Some []
         then TextNode (wrap (the latex))
         else Element e (map (replaceKatex cls wrap dataMath') ch))"
| "replaceKatex cls wrap dataMath (DocumentFragment ch) =
     DocumentFragment (map (replaceKatex cls wrap dataMath) ch)"
| "replaceKatex cls wrap dataMath n = n"

text \<open>
  Pass 3: MathJax 3, \<^verbatim>\<open>mjx-container\<close>. The source is the text of the first
  \<^verbatim>\<open>script[type="math/tex"]\<close> inside, or else the \<^verbatim>\<open>aria-label\<close> attribute.
\<close>

definition mjxText :: "elem \<Rightarrow> node list \<Rightarrow> string option" where
  "mjxText e ch =
     (if tagName e = ''mjx-container''
      then
        (let isDisplay = (getAttribute e ''display'' = Some ''block'');
             script = querySelector TEX_SCRIPT (Element e ch);
             latex0 = (case script of Some sc \<Rightarrow> textContent sc | None \<Rightarrow> []);
             latex = (if latex0 \<noteq> [] then latex0
                      else (case getAttribute e ''aria-label'' of Some l \<Rightarrow> l | None \<Rightarrow> []))
         in if latex \<noteq> []
            then Some (if isDisplay then displayMath latex else inlineMath latex)
            else None)
      else None)"

text \<open>
  Pass 4: MathJax 2, an element of class \<^verbatim>\<open>MathJax\<close> whose next element sibling has
  the \<^verbatim>\<open>tagName\<close> \<^verbatim>\<open>SCRIPT\<close>, so is an HTML \<^verbatim>\<open>script\<close> element, with
  \<^verbatim>\<open>math/tex\<close> in its \<^verbatim>\<open>type\<close> property, which reflects the attribute. The
  element is replaced by the text of the script and the script is removed: \<open>dropScript\<close>
  says that the next element of the sibling list is that script.
\<close>

fun nextScript :: "node list \<Rightarrow> (string \<times> string) option" where
  "nextScript [] = None"
| "nextScript (Element e ch # xs) =
     (let type = (case getAttribute e ''type'' of Some t \<Rightarrow> t | None \<Rightarrow> [])
      in if isHTML e \<and> tagName e = ''script'' \<and> includes_str type ''math/tex''
         then Some (type, textContent (Element e ch)) else None)"
| "nextScript (x # xs) = nextScript xs"

fun replaceMathJax2 :: "node \<Rightarrow> node"
  and replaceMathJax2_siblings :: "bool \<Rightarrow> node list \<Rightarrow> node list" where
  "replaceMathJax2 (Element e ch) = Element e (replaceMathJax2_siblings False ch)"
| "replaceMathJax2 (DocumentFragment ch) = DocumentFragment (replaceMathJax2_siblings False ch)"
| "replaceMathJax2 (TextNode s) = TextNode s"
| "replaceMathJax2 OtherNode = OtherNode"
| "replaceMathJax2_siblings dropScript [] = []"
| "replaceMathJax2_siblings dropScript (Element e ch # xs) =
     (if dropScript then replaceMathJax2_siblings False xs
      else if ''MathJax'' \<in> set (classList e)
      then (case nextScript xs of
              Some (type, text) \<Rightarrow>
                TextNode (if includes_str type ''display'' then displayMath text
                          else inlineMath text)
                  # replaceMathJax2_siblings True xs
            | None \<Rightarrow> replaceMathJax2 (Element e ch) # replaceMathJax2_siblings False xs)
      else replaceMathJax2 (Element e ch) # replaceMathJax2_siblings False xs)"
| "replaceMathJax2_siblings dropScript (x # xs) = x # replaceMathJax2_siblings dropScript xs"

text \<open>Pass 5: MathML, a \<^verbatim>\<open>math\<close> element with a TeX annotation.\<close>

definition mathmlText :: "elem \<Rightarrow> node list \<Rightarrow> string option" where
  "mathmlText e ch =
     (if tagName e = ''math''
      then (case querySelector TEX_ANNOTATION (Element e ch) of
              Some annotation \<Rightarrow>
                Some (if getAttribute e ''display'' = Some ''block''
                      then displayMath (textContent annotation)
                      else inlineMath (textContent annotation))
            | None \<Rightarrow> None)
      else None)"

text \<open>Pass 6: the hidden copies of a formula are removed.\<close>

fun removeHidden :: "node \<Rightarrow> node" where
  "removeHidden (Element e ch) =
     Element e (map removeHidden (filter (\<lambda>c. \<not> node_matches HIDDEN_SELECTOR c) ch))"
| "removeHidden (DocumentFragment ch) =
     DocumentFragment (map removeHidden (filter (\<lambda>c. \<not> node_matches HIDDEN_SELECTOR c) ch))"
| "removeHidden n = n"

definition replaceMathElements :: "node \<Rightarrow> node" where
  "replaceMathElements root =
     removeHidden
       (replaceWhere mathmlText
         (replaceMathJax2
           (replaceWhere mjxText
             (replaceKatex ''katex'' inlineMath None
               (replaceKatex ''katex-display'' displayMath None
                 (replaceWhere (dataMathText ''math-inline'' inlineMath)
                   (replaceWhere (dataMathText ''math-block'' displayMath) root)))))))"

text \<open>
  The body of the \<^verbatim>\<open>try\<close> block of \<^verbatim>\<open>extractTextWithMath\<close>, and the function: no
  range gives the empty string, and an exception of the body is caught and answered with
  the trimmed visual text.
\<close>

definition extractBody :: "selection \<Rightarrow> js_error + string" where
  "extractBody selection =
     (case ranges selection of
        [] \<Rightarrow> Inl IndexSizeError
      | r # rs \<Rightarrow>
          (case directLatex r of
             Some text \<Rightarrow> Inr text
           | None \<Rightarrow>
               (case cloneContents r of
                  Inl e \<Rightarrow> Inl e
                | Inr fragment \<Rightarrow>
                    if querySelector MATH_SELECTOR fragment = None
                    then Inr (trim (toString selection))
                    else
                      (case annotateMathFromOriginalDOM fragment r of
                         Inl e \<Rightarrow> Inl e
                       | Inr annotated \<Rightarrow>
                           Inr (collapseBlankLines
                                  (trim (getTextFromFragment (replaceMathElements annotated))))))))"

definition extractTextWithMath :: "selection option \<Rightarrow> js_error + string" where
  "extractTextWithMath selection =
     (case selection of
        None \<Rightarrow> Inr []
      | Some s \<Rightarrow>
          if ranges s = [] then Inr []
          else (case extractBody s of
                  Inr text \<Rightarrow> Inr text
                | Inl e \<Rightarrow> Inr (trim (toString s))))"

section \<open>The quote controller\<close>

text \<open>
  The controller reads the page anew in every handler. What it reads is a snapshot of the
  host page handed to the handler: the element \<^verbatim>\<open>findInputElement()\<close> returns, the
  element \<^verbatim>\<open>findSendButton()\<close> returns, where the focus is, and
  \<^verbatim>\<open>window.getSelection()\<close>. Of the send button it matters whether it is a disabled
  form control: \<^verbatim>\<open>click()\<close> on a disabled button dispatches no event. Of the input element it reads: whether it is content
  editable, its tag, its text content, the first inner editable region in its light tree
  and in its shadow tree (the index of the first inner selector that finds one, and the
  region's text), and its \<^verbatim>\<open>value\<close> property when it has one.
\<close>

datatype input_el = InputEl (editable: bool) (inputTag: string) (inputText: string)
  (inner: "(nat \<times> string) option") (shadowInner: "(nat \<times> string) option")
  (inputValue: "string option")

datatype focus = InputFocus | BubbleFocus | OtherFocus

datatype button_el = ButtonEl (disabled: bool)

datatype host = Host (inputEl: "input_el option") (sendBtn: "button_el option")
  (activeElement: focus)
  (getSelection: "selection option")

text \<open>
  What the controller does to the page is kept as a list of effects: a send gesture it
  cancelled in the capture phase, a message it wrote into the input, and a send gesture
  that reached the host's own handlers. A gesture is the user's click on the send button,
  the user's unshifted Enter in the focused input, or one of the two the controller
  synthesizes. Pending \<^verbatim>\<open>setTimeout\<close> and \<^verbatim>\<open>requestAnimationFrame\<close> callbacks are
  tasks.
\<close>

datatype gesture = UserClick | UserEnter | SyntheticClick | SyntheticEnter

datatype effect = Intercepted gesture | Injected string | Delivered gesture

datatype task = ReadSelection | FocusInput | ShowChip | Resend | ClearBypass

record state =
  citationFormat :: string
  quotedText :: string
  quotedDisplayText :: string
  chipEl :: bool
  chipVisible :: bool
  isBypassingSend :: bool
  bubbleEl :: bool
  bubbleVisible :: bool
  currentSelectedText :: string
  currentDisplayText :: string
  timers :: "task list"
  effects :: "effect list"

definition init :: state where
  "init = \<lparr>citationFormat = DEFAULT_CITATION_FORMAT, quotedText = [], quotedDisplayText = [],
     chipEl = False, chipVisible = False, isBypassingSend = False, bubbleEl = False,
     bubbleVisible = False, currentSelectedText = [], currentDisplayText = [],
     timers = [], effects = []\<rparr>"

text \<open>
  \<^verbatim>\<open>injectFormattedText\<close> reports whether a writable surface was found; writing into
  a content editable element or a textarea always succeeds.
\<close>

definition injectIntoRichTextarea :: "input_el \<Rightarrow> bool" where
  "injectIntoRichTextarea richTextarea =
     (if inner richTextarea \<noteq> None then True
      else if shadowInner richTextarea \<noteq> None then True
      else if inputValue richTextarea \<noteq> None then True
      else False)"

definition injectFormattedText :: "host \<Rightarrow> string \<Rightarrow> bool" where
  "injectFormattedText h text =
     (case inputEl h of
        None \<Rightarrow> False
      | Some i \<Rightarrow>
          if editable i then True
          else if inputTag i = ''rich-textarea'' then injectIntoRichTextarea i
          else if inputTag i = ''textarea'' then True
          else False)"

text \<open>
  \<^verbatim>\<open>getUserInput\<close> looks for an inner region with the first three inner selectors
  only.
\<close>

definition innerText :: "(nat \<times> string) option \<Rightarrow> string option" where
  "innerText found =
     (case found of Some (k, text) \<Rightarrow> if k < 3 then Some text else None | None \<Rightarrow> None)"

definition getUserInput :: "host \<Rightarrow> string" where
  "getUserInput h =
     (case inputEl h of
        None \<Rightarrow> []
      | Some i \<Rightarrow>
          if editable i then trim (inputText i)
          else if inputTag i = ''rich-textarea'' then
            (case innerText (inner i) of
               Some text \<Rightarrow> trim text
             | None \<Rightarrow>
                 (case innerText (shadowInner i) of
                    Some text \<Rightarrow> trim text
                  | None \<Rightarrow>
                      (case inputValue i of
                         Some v \<Rightarrow> trim (if v \<noteq> [] then v else inputText i)
                       | None \<Rightarrow> trim (inputText i))))
          else if inputTag i = ''textarea'' then
            (case inputValue i of Some v \<Rightarrow> trim v | None \<Rightarrow> [])
          else [])"

definition hideBubble :: "state \<Rightarrow> state" where
  "hideBubble s = (if bubbleEl s then s\<lparr>bubbleVisible := False\<rparr> else s)"

definition showBubble :: "state \<Rightarrow> state" where
  "showBubble s = s\<lparr>bubbleEl := True, bubbleVisible := True\<rparr>"

text \<open>
  \<^verbatim>\<open>showQuoteChip(text, visibleText)\<close> sets \<^verbatim>\<open>quotedDisplayText = visibleText || text\<close>
  and makes the chip visible in the next animation frame.
\<close>

definition showQuoteChip :: "string \<Rightarrow> string \<Rightarrow> state \<Rightarrow> state" where
  "showQuoteChip text visibleText s =
     s\<lparr>quotedText := text,
       quotedDisplayText := (if visibleText \<noteq> [] then visibleText else text),
       chipEl := True,
       timers := timers s @ [ShowChip]\<rparr>"

definition hideQuoteChip :: "state \<Rightarrow> state" where
  "hideQuoteChip s =
     (let s1 = s\<lparr>quotedText := [], quotedDisplayText := []\<rparr>
      in if chipEl s1 then s1\<lparr>chipVisible := False\<rparr> else s1)"

definition handleBubbleClick :: "state \<Rightarrow> state" where
  "handleBubbleClick s =
     (if currentSelectedText s = [] then hideBubble s
      else
        (let s1 = showQuoteChip (currentSelectedText s) (currentDisplayText s) s;
             s2 = hideBubble s1
         in s2\<lparr>currentSelectedText := [], currentDisplayText := [],
                timers := timers s2 @ [FocusInput]\<rparr>))"

text \<open>
  \<^verbatim>\<open>composeAndSend\<close> builds the message, clears the quote chip, injects the message
  and, when the injection succeeded, sets the bypass flag and defers the re-send.
\<close>

definition composeAndSend :: "host \<Rightarrow> state \<Rightarrow> state" where
  "composeAndSend h s =
     (if quotedText s = [] then s
      else
        (let userInput = getUserInput h;
             message = fullMessage (citationFormat s) (quotedText s) userInput;
             s1 = hideQuoteChip s
         in if \<not> injectFormattedText h message then s1
            else s1\<lparr>effects := effects s1 @ [Injected message],
                     isBypassingSend := True,
                     timers := timers s1 @ [Resend]\<rparr>))"

text \<open>
  The two capture-phase handlers return whether they cancelled the event
  (\<^verbatim>\<open>preventDefault\<close> and \<^verbatim>\<open>stopPropagation\<close>). The target of a click is the send
  button (\<^verbatim>\<open>isSendButtonClick\<close> holds), the bubble, the close button of the chip, or
  anything else.
\<close>

datatype click_target = SendButton | Bubble | ChipClose | Elsewhere

definition handleSendClick ::
  "gesture \<Rightarrow> host \<Rightarrow> click_target \<Rightarrow> state \<Rightarrow> bool \<times> state" where
  "handleSendClick g h target s =
     (if quotedText s = [] \<or> isBypassingSend s then (False, s)
      else if target \<noteq> SendButton then (False, s)
      else (True, composeAndSend h (s\<lparr>effects := effects s @ [Intercepted g]\<rparr>)))"

datatype key = Enter | Escape | Space | OtherKey

definition handleEnterToSend ::
  "gesture \<Rightarrow> host \<Rightarrow> key \<Rightarrow> bool \<Rightarrow> state \<Rightarrow> bool \<times> state" where
  "handleEnterToSend g h k shiftKey s =
     (if quotedText s = [] \<or> isBypassingSend s then (False, s)
      else if k \<noteq> Enter \<or> shiftKey then (False, s)
      else if inputEl h = None then (False, s)
      else if activeElement h \<noteq> InputFocus then (False, s)
      else (True, composeAndSend h (s\<lparr>effects := effects s @ [Intercepted g]\<rparr>)))"

definition handleKeyDown :: "key \<Rightarrow> state \<Rightarrow> state" where
  "handleKeyDown k s =
     (if k = Escape then (hideQuoteChip (hideBubble s))\<lparr>currentSelectedText := []\<rparr> else s)"

definition onConversationChange :: "state \<Rightarrow> state" where
  "onConversationChange s =
     (hideBubble (hideQuoteChip s))\<lparr>currentSelectedText := [], currentDisplayText := []\<rparr>"

text \<open>The deferred part of \<^verbatim>\<open>handleMouseUp\<close>.\<close>

definition readSelection :: "host \<Rightarrow> state \<Rightarrow> state" where
  "readSelection h s =
     (case extractTextWithMath (getSelection h) of
        Inl e \<Rightarrow> s
      | Inr text \<Rightarrow>
          if text = [] then
            (hideBubble s)\<lparr>currentSelectedText := [], currentDisplayText := []\<rparr>
          else if \<not> isValidSelectionArea (getSelection h) then
            (hideBubble s)\<lparr>currentSelectedText := [], currentDisplayText := []\<rparr>
          else
            showBubble (s\<lparr>currentSelectedText := text,
                           currentDisplayText :=
                             (case getSelection h of
                                Some sel \<Rightarrow> trim (toString sel)
                              | None \<Rightarrow> text)\<rparr>))"

definition deliver :: "gesture \<Rightarrow> state \<Rightarrow> state" where
  "deliver g s = s\<lparr>effects := effects s @ [Delivered g]\<rparr>"

text \<open>
  The deferred part of \<^verbatim>\<open>composeAndSend\<close>: \<^verbatim>\<open>sendBtn.click()\<close> when a send button
  is found, or without a button an Enter keydown on the input. A disabled button
  dispatches no click, and the Enter fallback is not taken then. A synthesized event
  passes the capture-phase handlers like any other event and reaches the host when they
  do not cancel it. Then the clearing of the bypass flag is deferred.
\<close>

definition resend :: "host \<Rightarrow> state \<Rightarrow> state" where
  "resend h s =
     (let s1 =
        (case sendBtn h of
           Some btn \<Rightarrow>
             if disabled btn then s
             else
               (case handleSendClick SyntheticClick h SendButton s of
                  (cancelled, s') \<Rightarrow> if cancelled then s' else deliver SyntheticClick s')
         | None \<Rightarrow>
             if inputEl h \<noteq> None then
               (case handleEnterToSend SyntheticEnter h Enter False (handleKeyDown Enter s) of
                  (cancelled, s') \<Rightarrow> if cancelled then s' else deliver SyntheticEnter s')
             else s)
      in s1\<lparr>timers := timers s1 @ [ClearBypass]\<rparr>)"

fun fire :: "task \<Rightarrow> host \<Rightarrow> state \<Rightarrow> state" where
  "fire ReadSelection h s = readSelection h s"
| "fire FocusInput h s = s"
| "fire ShowChip h s = s\<lparr>chipVisible := True\<rparr>"
| "fire Resend h s = resend h s"
| "fire ClearBypass h s = s\<lparr>isBypassingSend := False\<rparr>"

text \<open>
  The events the listeners of \<^verbatim>\<open>init\<close> are registered for. A click or a keydown first
  passes the capture-phase handlers of the document; an event they do not cancel goes on to
  its target: the bubble, the close button of the chip, or the host, for which a click on
  the send button and an unshifted Enter in the focused input are send gestures. A pending
  task may fire at any time; a URL change is what the polling and the \<^verbatim>\<open>popstate\<close>
  listener detect, a removed response what the mutation observer detects.
\<close>

datatype event =
    MouseUp bool
  | MouseDown bool
  | Click click_target
  | KeyDown key bool
  | Scroll
  | Timeout task
  | UrlChanged
  | ResponseRemoved
  | StorageChanged string

fun step :: "host \<Rightarrow> event \<Rightarrow> state \<Rightarrow> state" where
  "step h (MouseUp onBubble) s =
     (if bubbleEl s \<and> onBubble then s else s\<lparr>timers := timers s @ [ReadSelection]\<rparr>)"
| "step h (MouseDown onBubble) s = (if bubbleEl s \<and> \<not> onBubble then hideBubble s else s)"
| "step h (Click target) s =
     (case handleSendClick UserClick h target s of
        (cancelled, s') \<Rightarrow>
          if cancelled then s'
          else (case target of
                  SendButton \<Rightarrow> deliver UserClick s'
                | Bubble \<Rightarrow> handleBubbleClick s'
                | ChipClose \<Rightarrow> hideQuoteChip s'
                | Elsewhere \<Rightarrow> s'))"
| "step h (KeyDown k shiftKey) s =
     (case handleEnterToSend UserEnter h k shiftKey (handleKeyDown k s) of
        (cancelled, s') \<Rightarrow>
          if cancelled then s'
          else if activeElement h = BubbleFocus \<and> (k = Enter \<or> k = Space)
          then handleBubbleClick s'
          else if activeElement h = InputFocus \<and> k = Enter \<and> \<not> shiftKey
          then deliver UserEnter s'
          else s')"
| "step h Scroll s = hideBubble s"
| "step h (Timeout t) s =
     (if t \<in> set (timers s) then fire t h (s\<lparr>timers := remove1 t (timers s)\<rparr>) else s)"
| "step h UrlChanged s = onConversationChange s"
| "step h ResponseRemoved s = (if quotedText s = [] then s else onConversationChange s)"
| "step h (StorageChanged newValue) s =
     s\<lparr>citationFormat := (if newValue \<noteq> [] then newValue else DEFAULT_CITATION_FORMAT)\<rparr>"

fun run :: "(host \<times> event) list \<Rightarrow> state \<Rightarrow> state" where
  "run [] s = s"
| "run ((h, e) # es) s = run es (step h e s)"

text \<open>Readings of the effect list and of the pending tasks.\<close>

definition delivered :: "state \<Rightarrow> gesture list" where
  "delivered s = concat (map (\<lambda>e. case e of Delivered g \<Rightarrow> [g] | _ \<Rightarrow> []) (effects s))"

definition injections :: "state \<Rightarrow> string list" where
  "injections s = concat (map (\<lambda>e. case e of Injected m \<Rightarrow> [m] | _ \<Rightarrow> []) (effects s))"







section \<open>Example pages\<close>

text \<open>Concrete tables, selections and pages at which the properties are evaluated.\<close>

definition cell :: "string \<Rightarrow> node" where
  "cell s = Element (Elem ''td'' [] []) [TextNode s]"

definition tableOf :: "node list list \<Rightarrow> node" where
  "tableOf rows = Element (Elem ''table'' [] []) (map (Element (Elem ''tr'' [] [])) rows)"

definition scenarioTable :: node where
  "scenarioTable = tableOf [[cell ''A'', cell ''BB''], [cell ''CCC'', cell ''D'']]"

definition pipeTable :: node where
  "pipeTable = tableOf [[cell ''a|b''], [cell ''c'']]"

definition bodyEl :: host_elem where
  "bodyEl = HostElem (Elem ''body'' [] []) []"

definition responseDiv :: host_elem where
  "responseDiv = HostElem (Elem ''div'' [''markdown''] []) []"

definition paragraphEl :: host_elem where
  "paragraphEl = HostElem (Elem ''p'' [] []) []"

definition copyButton :: host_elem where
  "copyButton = HostElem (Elem ''button'' [] [(''aria-label'', ''Copy'')]) []"

text \<open>Plain text selected inside a response.\<close>

definition skySelection :: selection where
  "skySelection = Selection
     [Range (TextRef [paragraphEl, responseDiv, bodyEl])
            (TextRef [paragraphEl, responseDiv, bodyEl])
            (Inr (DocumentFragment [TextNode ''The sky is blue'']))]
     ''The sky is blue''"

text \<open>
  A selection that starts in the label of a button inside a response and ends in the
  text of the response: the common ancestor is the response container.
\<close>

definition straddling :: selection where
  "straddling = Selection
     [Range (ElementRef responseDiv [bodyEl]) (TextRef [copyButton, responseDiv, bodyEl])
        (Inr (DocumentFragment [TextNode ''Copy'', TextNode ''The sky is blue'']))]
     ''CopyThe sky is blue''"

text \<open>Text selected inside the input box, and text selected in a side bar.\<close>

definition insideInput :: selection where
  "insideInput = Selection
     [Range (TextRef [paragraphEl,
                      HostElem (Elem ''div'' [''ql-editor''] [(''contenteditable'', ''true'')]) [],
                      HostElem (Elem ''rich-textarea'' [] []) [], bodyEl])
            (TextRef [paragraphEl,
                      HostElem (Elem ''div'' [''ql-editor''] [(''contenteditable'', ''true'')]) [],
                      HostElem (Elem ''rich-textarea'' [] []) [], bodyEl])
            (Inr (DocumentFragment [TextNode ''my question'']))]
     ''my question''"

definition insideSidebar :: selection where
  "insideSidebar = Selection
     [Range (TextRef [HostElem (Elem ''nav'' [''sidebar''] []) [], bodyEl])
            (TextRef [HostElem (Elem ''nav'' [''sidebar''] []) [], bodyEl])
            (Inr (DocumentFragment [TextNode ''Recent'']))]
     ''Recent''"

text \<open>A range over the whole document, doctype included: cloning its contents fails.\<close>

definition wholeDocument :: selection where
  "wholeDocument = Selection [Range (DocumentRef []) (DocumentRef []) (Inl HierarchyRequestError)]
     ''  Gemini  ''"





definition inlineWrapper :: "string \<Rightarrow> elem" where
  "inlineWrapper latex = Elem ''span'' [''math-inline''] [(''data-math'', latex)]"

definition blockWrapper :: "string \<Rightarrow> elem" where
  "blockWrapper latex = Elem ''div'' [''math-block''] [(''data-math'', latex)]"








definition mathEl :: elem where
  "mathEl = ForeignElem ''math'' [] []"

text \<open>A selection inside the rendering of a display formula.\<close>

definition blockChain :: "host_elem list" where
  "blockChain = [HostElem (Elem ''span'' [''katex''] []) [],
     HostElem (Elem ''span'' [''katex-display''] []) [],
     HostElem (blockWrapper ''E=mc^2'') [], responseDiv, bodyEl]"

definition katexHtml :: host_elem where
  "katexHtml = HostElem (Elem ''span'' [''katex-html''] []) []"

definition insideBlockEquation :: selection where
  "insideBlockEquation = Selection
     [Range (ElementRef katexHtml blockChain)
            (TextRef (HostElem (Elem ''span'' [''mord''] []) [] # katexHtml # blockChain))
        (Inr (DocumentFragment [Element (Elem ''span'' [''mord''] []) [TextNode ''E''],
                                Element (Elem ''span'' [''mrel''] []) [TextNode ''='']]))]
     ''E=''"

text \<open>A click on an inline formula: a collapsed selection, its visual text is empty.\<close>

definition equationClick :: selection where
  "equationClick = Selection
     [Range (TextRef [HostElem (Elem ''span'' [''mord''] []) [],
                      HostElem (inlineWrapper ''x^2'') [], paragraphEl, responseDiv, bodyEl])
            (TextRef [HostElem (Elem ''span'' [''mord''] []) [],
                      HostElem (inlineWrapper ''x^2'') [], paragraphEl, responseDiv, bodyEl])
            (Inr (DocumentFragment []))]
     []"

text \<open>
  A page with an empty textarea as its input and a send button; the same page with the
  send button disabled; the page seen when no input element is found; and the page after
  a click on a formula.
\<close>

definition textareaEl :: input_el where
  "textareaEl = InputEl False ''textarea'' [] None None (Some [])"

definition page :: host where
  "page = Host (Some textareaEl) (Some (ButtonEl False)) InputFocus (Some skySelection)"


definition pageWithoutInput :: host where
  "pageWithoutInput = Host None (Some (ButtonEl False)) OtherFocus None"

definition equationPage :: host where
  "equationPage =
     Host (Some textareaEl) (Some (ButtonEl False)) OtherFocus (Some equationClick)"

text \<open>The page with a selection inside the rendering of a display formula.\<close>

definition blockEquationPage :: host where
  "blockEquationPage =
     Host (Some textareaEl) (Some (ButtonEl False)) InputFocus (Some insideBlockEquation)"

text \<open>
  Capturing a quote: the mouse is released over a selection, the deferred reading of the
  selection shows the bubble, the bubble is clicked.
\<close>

definition capture :: "host \<Rightarrow> (host \<times> event) list" where
  "capture h = [(h, MouseUp False), (h, Timeout ReadSelection), (h, Click Bubble)]"

definition quoted :: state where
  "quoted = run (capture page) init"

chapter \<open>Properties\<close>

section \<open>Display encoding of the popup\<close>

lemma toDisplay_starts_with_n:
  "toDisplay cs = b # r \<Longrightarrow> b = CHR ''n'' \<Longrightarrow> \<exists>t. cs = CHR ''n'' # t"
  by (cases cs) (auto simp: BACKSLASH_def split: if_splits)

text \<open>
  Claim C10, as the code has it: the display encoding does not escape backslashes, so
  \<^verbatim>\<open>fromDisplay(toDisplay(s)) = s\<close> holds for every string \<open>s\<close> that has no backslash
  directly followed by the letter n.
\<close>

theorem display_roundtrip:
  "\<not> contains_backslash_n s \<Longrightarrow> fromDisplay (toDisplay s) = s"
proof (induction s)
  case Nil
  then show ?case by simp
next
  case (Cons c cs)
  then have ih: "fromDisplay (toDisplay cs) = cs"
    by (cases cs) auto
  show ?case
  proof (cases "c = NL")
    case True
    then show ?thesis using ih by simp
  next
    case False
    show ?thesis
    proof (cases "toDisplay cs")
      case Nil
      then show ?thesis using False ih by simp
    next
      case (Cons b r)
      have "\<not> (c = BACKSLASH \<and> b = CHR ''n'')"
        using toDisplay_starts_with_n[OF Cons] Cons.prems by auto
      then show ?thesis using False ih Cons by auto
    qed
  qed
qed

text \<open>The default citation format has no backslash, and it survives the round trip.\<close>

theorem display_roundtrip_witness:
  "\<not> contains_backslash_n DEFAULT_CITATION_FORMAT \<and>
   fromDisplay (toDisplay DEFAULT_CITATION_FORMAT) = DEFAULT_CITATION_FORMAT"
proof -
  have h: "\<not> contains_backslash_n DEFAULT_CITATION_FORMAT"
    by (simp add: DEFAULT_CITATION_FORMAT_def NL_def BACKSLASH_def)
  from h display_roundtrip[OF h] show ?thesis
    by (rule conjI)
qed

text \<open>
  Claim C10 as stated fails: the two code units backslash, n hold no line feed, so
  \<^verbatim>\<open>toDisplay\<close> leaves them alone and \<^verbatim>\<open>fromDisplay\<close> turns them into one line feed.
\<close>

theorem display_roundtrip_counterexample:
  "fromDisplay (toDisplay [BACKSLASH, CHR ''n'']) = [NL] \<and>
   fromDisplay (toDisplay [BACKSLASH, CHR ''n'']) \<noteq> [BACKSLASH, CHR ''n'']"
  by (simp add: NL_def BACKSLASH_def)

section \<open>Collapsing blank lines\<close>

lemma dropWhile_stops: "dropWhile P xs = [] \<or> \<not> P (hd (dropWhile P xs))"
  by (metis hd_dropWhile)

lemma collapse_no_leading_NL:
  "cs = [] \<or> hd cs \<noteq> NL \<Longrightarrow> takeWhile (\<lambda>x. x = NL) (collapseBlankLines cs) = []"
  by (cases cs) auto

lemma collapse_after_run:
  "takeWhile (\<lambda>x. x = NL) (collapseBlankLines (dropWhile (\<lambda>x. x = NL) cs)) = []"
  using dropWhile_stops[of "\<lambda>x. x = NL" cs] by (intro collapse_no_leading_NL) auto

lemma collapse_run_le:
  "length (takeWhile (\<lambda>x. x = NL) (collapseBlankLines cs))
     \<le> length (takeWhile (\<lambda>x. x = NL) cs)"
proof (induction cs rule: collapseBlankLines.induct)
  case 1
  then show ?case by simp
next
  case (2 c cs)
  show ?case
  proof (cases "c = NL \<and> 2 \<le> length (takeWhile (\<lambda>x. x = NL) cs)")
    case True
    with collapse_after_run[of cs] show ?thesis by simp
  next
    case False
    with 2 show ?thesis by auto
  qed
qed

text \<open>
  Claim C8: collapsing runs of three or more line feeds to two is idempotent.
\<close>

theorem collapseBlankLines_idempotent:
  "collapseBlankLines (collapseBlankLines s) = collapseBlankLines s"
proof (induction s rule: collapseBlankLines.induct)
  case 1
  then show ?case by simp
next
  case (2 c cs)
  show ?case
  proof (cases "c = NL \<and> 2 \<le> length (takeWhile (\<lambda>x. x = NL) cs)")
    case True
    with 2 collapse_after_run[of cs] show ?thesis by simp
  next
    case False
    with 2 collapse_run_le[of cs] show ?thesis by auto
  qed
qed

section \<open>Template substitution\<close>

lemma getSubstitution_plain:
  "\<not> dollarPattern r \<Longrightarrow> getSubstitution m b a r = r"
  by (induction m b a r rule: getSubstitution.induct) auto

lemma occurrences_append_pos: "0 < occurrences pat (xs @ pat @ ys)"
proof (induction xs)
  case Nil
  have "prefix pat (pat @ ys)" by simp
  then show ?case by (cases "pat @ ys") auto
next
  case (Cons a xs)
  then show ?case by simp
qed

lemma split_first_unique:
  "occurrences pat (pre @ pat @ post) = 1 \<Longrightarrow>
   split_first pat (pre @ pat @ post) = Some (pre, post)"
proof (induction pre)
  case Nil
  show ?case
  proof (cases "pat @ post")
    case Nil
    then show ?thesis by simp
  next
    case (Cons a list)
    have "prefix pat (a # list)" "drop (length pat) (a # list) = post"
      by (simp_all flip: Cons)
    then show ?thesis by (simp add: Cons)
  qed
next
  case (Cons c pre)
  have "0 < occurrences pat (pre @ pat @ post)"
    by (rule occurrences_append_pos)
  with Cons.prems have np: "\<not> prefix pat (c # pre @ pat @ post)"
    and o: "occurrences pat (pre @ pat @ post) = 1"
    by (auto split: if_splits)
  from Cons.IH[OF o] np show ?case by simp
qed

text \<open>
  What the substitution does for every quote text without a dollar pattern, an inline
  formula \<^verbatim>\<open>$x^2$\<close> among them: for a template that holds the placeholder exactly
  once, between \<open>pre\<close> and \<open>post\<close>, the citation is \<open>pre\<close>, the quote text,
  \<open>post\<close>.
\<close>

lemma citation_plain_quote:
  assumes "occurrences PLACEHOLDER (pre @ PLACEHOLDER @ post) = 1"
    and "\<not> dollarPattern q"
  shows "citation (pre @ PLACEHOLDER @ post) q = pre @ q @ post"
  using assms
  by (simp add: citation_def js_replace_def split_first_unique getSubstitution_plain)

lemma citation_inline_math:
  "citation DEFAULT_CITATION_FORMAT ''$x^2$''
     = ''Regarding the following selected content:'' @ [NL] @ ''------'' @ [NL] @
       ''$x^2$'' @ [NL] @ ''------'' @ [NL]"
  by code_simp

text \<open>
  Claim C2 fails on the code for a quote text with a dollar pattern, and the extraction
  produces such texts: a display formula is extracted as its source between doubled
  dollar signs, as the README promises (display math becomes \<^verbatim>\<open>$$...$$\<close>, and the
  message holds the selected text with its LaTeX preserved). The quote text is passed to
  \<^verbatim>\<open>String.prototype.replace\<close> as the replacement, where \<^verbatim>\<open>$$\<close> stands for one
  dollar sign. So the quote \<^verbatim>\<open>$$E=mc^2$$\<close>, extracted from a selection inside a
  display formula, reaches the message as the inline formula \<^verbatim>\<open>$E=mc^2$\<close>: the
  quote text does not occur in the message that is injected.
\<close>

theorem citation_display_math:
  "extractTextWithMath (Some insideBlockEquation) = Inr ''$$E=mc^2$$'' \<and>
   quotedText (run (capture blockEquationPage) init) = ''$$E=mc^2$$'' \<and>
   citation DEFAULT_CITATION_FORMAT ''$$E=mc^2$$''
     = ''Regarding the following selected content:'' @ [NL] @ ''------'' @ [NL] @
       ''$E=mc^2$'' @ [NL] @ ''------'' @ [NL] \<and>
   \<not> includes_str (citation DEFAULT_CITATION_FORMAT ''$$E=mc^2$$'') ''$$E=mc^2$$'' \<and>
   injections (run (capture blockEquationPage @ [(blockEquationPage, Click SendButton)]) init)
     = [''Regarding the following selected content:'' @ [NL] @ ''------'' @ [NL] @
        ''$E=mc^2$'' @ [NL] @ ''------'']"
  by code_simp

section \<open>Markdown tables\<close>

lemma tableToMarkdown_unfold:
  "tableToMarkdown t =
     (if querySelectorAll [[Tag ''tr'']] t = [] then [] else renderTable (tableMatrix t))"
  by (simp add: tableMatrix_def Let_def)

lemma split_on_no_sep: "c \<notin> set s \<Longrightarrow> split_on c s = [s]"
  by (induction s) auto

lemma split_on_append: "c \<notin> set l \<Longrightarrow> split_on c (l @ c # rest) = l # split_on c rest"
  by (induction l) (auto split: list.splits)

lemma split_on_join:
  "ls \<noteq> [] \<Longrightarrow> \<forall>l\<in>set ls. c \<notin> set l \<Longrightarrow> split_on c (join [c] ls) = ls"
proof (induction "[c]" ls rule: join.induct)
  case 1
  then show ?case by simp
next
  case (2 x)
  then show ?case by (simp add: split_on_no_sep)
next
  case (3 x y ys)
  then show ?case by (simp add: split_on_append)
qed

lemma set_join: "set (join sep xs) \<subseteq> set sep \<union> \<Union> (set ` set xs)"
  by (induction sep xs rule: join.induct) auto

lemma count_join:
  "\<forall>x\<in>set xs. count_list x c = 0 \<Longrightarrow>
   count_list (join sep xs) c = (length xs - 1) * count_list sep c"
  by (induction sep xs rule: join.induct) auto

lemma replaceNewlineRuns_no_NL: "NL \<notin> set (replaceNewlineRuns s)"
  by (induction s rule: replaceNewlineRuns.induct) (auto simp: SPACE_def NL_def)

lemma tableMatrix_no_NL:
  "row \<in> set (tableMatrix t) \<Longrightarrow> c \<in> set row \<Longrightarrow> NL \<notin> set c"
  by (auto simp: tableMatrix_def cellText_def replaceNewlineRuns_no_NL)

lemma colCountOf_fold:
  "foldl (\<lambda>colCount row. if length row > colCount then length row else colCount) n m
     = fold max (map length m) n"
  by (induction m arbitrary: n) (auto simp: max_def)

lemma fold_max_ge: "(n::nat) \<le> fold max xs n \<and> (\<forall>x\<in>set xs. x \<le> fold max xs n)"
proof (induction xs arbitrary: n)
  case Nil
  then show ?case by simp
next
  case (Cons a xs)
  have "max a n \<le> fold max xs (max a n)" using Cons by blast
  then show ?case using Cons[of "max a n"] by auto
qed

lemma colCountOf_ge: "row \<in> set m \<Longrightarrow> length row \<le> colCountOf m"
  unfolding colCountOf_def colCountOf_fold using fold_max_ge[of 0 "map length m"] by auto

lemma length_padRow: "row \<in> set m \<Longrightarrow> length (padRow (colCountOf m) row) = colCountOf m"
  using colCountOf_ge[of row m] by (simp add: padRow_def)

lemma padRow_cells: "c \<in> set (padRow n row) \<Longrightarrow> c \<in> set row \<or> c = []"
  by (auto simp: padRow_def)

lemma set_pad: "set (pad s w) \<subseteq> insert SPACE (set s)"
  by (auto simp: pad_def)

lemma formatRow_chars:
  "set (formatRow widths row) \<subseteq> {PIPE, SPACE} \<union> \<Union> (set ` set row)"
proof -
  have "set (pad (row ! i) (widths ! i)) \<subseteq> {PIPE, SPACE} \<union> \<Union> (set ` set row)"
    if "i < length row" for i
    using set_pad[of "row ! i" "widths ! i"] nth_mem[OF that] by auto
  then have "\<Union> (set ` set (map (\<lambda>i. pad (row ! i) (widths ! i)) [0..<length row]))
      \<subseteq> {PIPE, SPACE} \<union> \<Union> (set ` set row)"
    by fastforce
  with set_join[of "'' | ''" "map (\<lambda>i. pad (row ! i) (widths ! i)) [0..<length row]"]
  show ?thesis
    by (auto simp: formatRow_def PIPE_def SPACE_def)
qed

lemma formatRow_no_NL:
  "\<forall>c\<in>set row. NL \<notin> set c \<Longrightarrow> NL \<notin> set (formatRow widths row)"
  using formatRow_chars[of widths row] by (auto simp: NL_def PIPE_def SPACE_def)

lemma separatorLine_no_NL: "NL \<notin> set (separatorLine widths)"
  using set_join[of "'' | ''" "map (\<lambda>w. replicate w (CHR ''-'')) widths"]
  by (auto simp: NL_def separatorLine_def)

lemma count_pad: "PIPE \<notin> set s \<Longrightarrow> count_list (pad s w) PIPE = 0"
  by (simp add: pad_def PIPE_def SPACE_def)

lemma formatRow_pipes:
  assumes "\<forall>c\<in>set row. PIPE \<notin> set c" "row \<noteq> []"
  shows "count_list (formatRow widths row) PIPE = length row + 1"
proof -
  have "\<forall>x\<in>set (map (\<lambda>i. pad (row ! i) (widths ! i)) [0..<length row]). count_list x PIPE = 0"
    using assms(1) by (auto simp: count_pad)
  from count_join[OF this, of "'' | ''"] assms(2) show ?thesis
    by (cases row) (simp_all add: formatRow_def PIPE_def)
qed

lemma separatorLine_pipes:
  assumes "widths \<noteq> []"
  shows "count_list (separatorLine widths) PIPE = length widths + 1"
proof -
  have "\<forall>x\<in>set (map (\<lambda>w. replicate w (CHR ''-'')) widths). count_list x PIPE = 0"
    by (auto simp: PIPE_def)
  from count_join[OF this, of "'' | ''"] assms show ?thesis
    by (cases widths) (simp_all add: PIPE_def separatorLine_def)
qed

lemma length_tableLines: "m \<noteq> [] \<Longrightarrow> length (tableLines m) = length m + 1"
  by (cases m) (simp_all add: tableLines_def Let_def)

text \<open>Every line of a rendered table is the separator or the format of a padded row.\<close>

lemma tableLines_cases:
  assumes "l \<in> set (tableLines m)"
  shows "l = separatorLine (map (columnWidth (map (padRow (colCountOf m)) m)) [0..<colCountOf m]) \<or>
         (\<exists>row\<in>set m. l = formatRow (map (columnWidth (map (padRow (colCountOf m)) m))
                                        [0..<colCountOf m]) (padRow (colCountOf m) row))"
  using assms by (cases m) (auto simp: tableLines_def Let_def)

lemma tableLines_no_NL:
  assumes "\<forall>row\<in>set m. \<forall>c\<in>set row. NL \<notin> set c"
  shows "\<forall>l\<in>set (tableLines m). NL \<notin> set l"
proof
  fix l
  assume "l \<in> set (tableLines m)"
  from tableLines_cases[OF this] show "NL \<notin> set l"
  proof
    assume "l = separatorLine (map (columnWidth (map (padRow (colCountOf m)) m)) [0..<colCountOf m])"
    then show ?thesis by (simp add: separatorLine_no_NL)
  next
    assume "\<exists>row\<in>set m. l = formatRow (map (columnWidth (map (padRow (colCountOf m)) m))
                                        [0..<colCountOf m]) (padRow (colCountOf m) row)"
    then obtain row where row: "row \<in> set m"
      and l: "l = formatRow (map (columnWidth (map (padRow (colCountOf m)) m))
                                        [0..<colCountOf m]) (padRow (colCountOf m) row)"
      by blast
    have "\<forall>c\<in>set (padRow (colCountOf m) row). NL \<notin> set c"
      using assms row by (auto dest: padRow_cells)
    then show ?thesis unfolding l by (rule formatRow_no_NL)
  qed
qed

lemma tableLines_pipes:
  assumes "1 \<le> colCountOf m" "\<forall>row\<in>set m. \<forall>c\<in>set row. PIPE \<notin> set c"
  shows "\<forall>l\<in>set (tableLines m). count_list l PIPE = colCountOf m + 1"
proof
  fix l
  assume "l \<in> set (tableLines m)"
  from tableLines_cases[OF this] show "count_list l PIPE = colCountOf m + 1"
  proof
    assume l: "l = separatorLine (map (columnWidth (map (padRow (colCountOf m)) m)) [0..<colCountOf m])"
    show ?thesis
      unfolding l using separatorLine_pipes[of "map (columnWidth (map (padRow (colCountOf m)) m))
        [0..<colCountOf m]"] assms(1) by auto
  next
    assume "\<exists>row\<in>set m. l = formatRow (map (columnWidth (map (padRow (colCountOf m)) m))
                                        [0..<colCountOf m]) (padRow (colCountOf m) row)"
    then obtain row where row: "row \<in> set m"
      and l: "l = formatRow (map (columnWidth (map (padRow (colCountOf m)) m))
                                        [0..<colCountOf m]) (padRow (colCountOf m) row)"
      by blast
    have len: "length (padRow (colCountOf m) row) = colCountOf m"
      using row by (rule length_padRow)
    have "\<forall>c\<in>set (padRow (colCountOf m) row). PIPE \<notin> set c"
      using assms(2) row by (auto dest: padRow_cells)
    moreover have "padRow (colCountOf m) row \<noteq> []"
      using len assms(1) by auto
    ultimately show ?thesis
      unfolding l using formatRow_pipes len by simp
  qed
qed

text \<open>
  Claim C1, as the code has it: a table with \<open>R \<ge> 1\<close> rows is rendered as \<open>R + 1\<close>
  lines separated by line feeds. When no cell text holds a pipe and the table has at
  least one column, every line has as many pipe-delimited fields as the longest row has
  cells.
\<close>

theorem tableToMarkdown_shape:
  assumes "querySelectorAll [[Tag ''tr'']] tableEl \<noteq> []"
  shows "length (split_on NL (tableToMarkdown tableEl))
           = length (querySelectorAll [[Tag ''tr'']] tableEl) + 1 \<and>
         (1 \<le> colCountOf (tableMatrix tableEl) \<and>
          (\<forall>row\<in>set (tableMatrix tableEl). \<forall>c\<in>set row. PIPE \<notin> set c) \<longrightarrow>
          (\<forall>line\<in>set (split_on NL (tableToMarkdown tableEl)).
             fieldCount line = colCountOf (tableMatrix tableEl)))"
proof -
  let ?m = "tableMatrix tableEl"
  have len: "length ?m = length (querySelectorAll [[Tag ''tr'']] tableEl)"
    by (simp add: tableMatrix_def)
  with assms have ne: "?m \<noteq> []" by auto
  have "renderTable ?m = join [NL] (tableLines ?m)"
    using ne by (simp add: renderTable_def)
  then have md: "tableToMarkdown tableEl = join [NL] (tableLines ?m)"
    by (simp only: tableToMarkdown_unfold assms if_False)
  have "\<forall>row\<in>set ?m. \<forall>c\<in>set row. NL \<notin> set c"
    using tableMatrix_no_NL by blast
  then have nl: "\<forall>l\<in>set (tableLines ?m). NL \<notin> set l"
    by (rule tableLines_no_NL)
  have tne: "tableLines ?m \<noteq> []"
    using length_tableLines[OF ne] by auto
  have sp: "split_on NL (tableToMarkdown tableEl) = tableLines ?m"
    unfolding md by (rule split_on_join[OF tne nl])
  have "length (split_on NL (tableToMarkdown tableEl))
           = length (querySelectorAll [[Tag ''tr'']] tableEl) + 1"
    by (simp only: sp length_tableLines[OF ne] len)
  moreover have "fieldCount line = colCountOf ?m"
    if "1 \<le> colCountOf ?m" "\<forall>row\<in>set ?m. \<forall>c\<in>set row. PIPE \<notin> set c"
      "line \<in> set (split_on NL (tableToMarkdown tableEl))" for line
    using tableLines_pipes[OF that(1,2)] that(3) unfolding sp fieldCount_def by simp
  ultimately show ?thesis
    by blast
qed

text \<open>
  The table of two rows and two columns with the cells A, BB, CCC and D: three lines of
  two fields each.
\<close>

theorem tableToMarkdown_shape_witness:
  "querySelectorAll [[Tag ''tr'']] scenarioTable \<noteq> [] \<and>
   1 \<le> colCountOf (tableMatrix scenarioTable) \<and>
   list_all (\<lambda>row. list_all (\<lambda>c. PIPE \<notin> set c) row) (tableMatrix scenarioTable) \<and>
   length (split_on NL (tableToMarkdown scenarioTable))
     = length (querySelectorAll [[Tag ''tr'']] scenarioTable) + 1 \<and>
   list_all (\<lambda>line. fieldCount line = colCountOf (tableMatrix scenarioTable))
     (split_on NL (tableToMarkdown scenarioTable))"
proof -
  have h1: "querySelectorAll [[Tag ''tr'']] scenarioTable \<noteq> []"
    by code_simp
  have h2: "1 \<le> colCountOf (tableMatrix scenarioTable)"
    by code_simp
  have h3: "list_all (\<lambda>row. list_all (\<lambda>c. PIPE \<notin> set c) row) (tableMatrix scenarioTable)"
    by code_simp
  from h3 have h3': "\<forall>row\<in>set (tableMatrix scenarioTable). \<forall>c\<in>set row. PIPE \<notin> set c"
    by (simp only: list_all_iff)
  from tableToMarkdown_shape[OF h1] h2 h3'
  have "length (split_on NL (tableToMarkdown scenarioTable))
          = length (querySelectorAll [[Tag ''tr'']] scenarioTable) + 1"
    and "\<forall>line\<in>set (split_on NL (tableToMarkdown scenarioTable)).
           fieldCount line = colCountOf (tableMatrix scenarioTable)"
    by blast+
  with h1 h2 h3 show ?thesis
    by (simp only: list_all_iff simp_thms)
qed

text \<open>
  Claim C1 as stated fails for a cell text with a pipe: the table with the rows
  \<^verbatim>\<open>a|b\<close> and \<^verbatim>\<open>c\<close> has one column, its header line has two fields and its other
  lines one.
\<close>

theorem tableToMarkdown_pipe_counterexample:
  "length (querySelectorAll [[Tag ''tr'']] pipeTable) = 2 \<and>
   colCountOf (tableMatrix pipeTable) = 1 \<and>
   tableToMarkdown pipeTable = ''| a|b |'' @ [NL] @ ''| --- |'' @ [NL] @ ''| c   |'' \<and>
   map fieldCount (split_on NL (tableToMarkdown pipeTable)) = [2, 1, 1]"
  by code_simp

text \<open>The table of the scenario as it is rendered.\<close>

lemma scenarioTable_rendered:
  "tableToMarkdown scenarioTable
     = ''| A   | BB  |'' @ [NL] @ ''| --- | --- |'' @ [NL] @ ''| CCC | D   |''"
  by code_simp

section \<open>Selection validity\<close>

lemma closest_iff:
  "closest sel chain \<noteq> None \<longleftrightarrow> (\<exists>h\<in>set chain. matches sel (el h))"
  by (auto simp: closest_def find_None_iff)

lemma matches_or_closest:
  "matches sel (el e) \<or> closest sel (e # anc) \<noteq> None
     \<longleftrightarrow> (\<exists>h\<in>set (e # anc). matches sel (el h))"
  unfolding closest_iff by auto

lemma isInsideSelector_chain:
  "isInsideSelector node selectors \<longleftrightarrow>
     (\<exists>selector\<in>set selectors. \<exists>h\<in>set (element_chain node). matches selector (el h))"
  unfolding isInsideSelector_def element_chain_def
  by (simp only: matches_or_closest list_ex_iff split: option.split dom_ref.split) simp

lemma isInsideSelector_suffix:
  assumes "suffix (element_chain a) (element_chain b)" "isInsideSelector a selectors"
  shows "isInsideSelector b selectors"
  using assms set_mono_suffix[OF assms(1)] unfolding isInsideSelector_chain by blast

text \<open>
  Claim C9, as the code has it: the node that is tested is the common ancestor container
  of the range, not its start point. A selection with a range is refused when the common
  ancestor lies inside an excluded region and accepted otherwise, inside a response
  container or not; so it is accepted whenever its start point lies in no excluded region.
\<close>

theorem isValidSelectionArea_commonAncestor:
  assumes "ranges s = r # rs"
  shows "(isInsideSelector (commonAncestorContainer r) EXCLUDE_SELECTORS
            \<longrightarrow> \<not> isValidSelectionArea (Some s)) \<and>
         (\<not> isInsideSelector (commonAncestorContainer r) EXCLUDE_SELECTORS \<and>
          isInsideSelector (commonAncestorContainer r) RESPONSE_SELECTORS
            \<longrightarrow> isValidSelectionArea (Some s)) \<and>
         (\<not> isInsideSelector (commonAncestorContainer r) EXCLUDE_SELECTORS \<and>
          \<not> isInsideSelector (commonAncestorContainer r) RESPONSE_SELECTORS
            \<longrightarrow> isValidSelectionArea (Some s)) \<and>
         (wf_range r \<and> \<not> isInsideSelector (startContainer r) EXCLUDE_SELECTORS
            \<longrightarrow> isValidSelectionArea (Some s))"
  using assms
    isInsideSelector_suffix[of "commonAncestorContainer r" "startContainer r" EXCLUDE_SELECTORS]
  by (auto simp: isValidSelectionArea_def wf_range_def)

text \<open>
  A selection inside the input box is refused, one inside a response is accepted, and one
  in a side bar, neither excluded nor in a response, is accepted as well.
\<close>

theorem isValidSelectionArea_commonAncestor_witness:
  "isInsideSelector (commonAncestorContainer (hd (ranges insideInput))) EXCLUDE_SELECTORS \<and>
   \<not> isValidSelectionArea (Some insideInput) \<and>
   \<not> isInsideSelector (commonAncestorContainer (hd (ranges skySelection))) EXCLUDE_SELECTORS \<and>
   isInsideSelector (commonAncestorContainer (hd (ranges skySelection))) RESPONSE_SELECTORS \<and>
   isValidSelectionArea (Some skySelection) \<and>
   \<not> isInsideSelector (commonAncestorContainer (hd (ranges insideSidebar))) EXCLUDE_SELECTORS \<and>
   \<not> isInsideSelector (commonAncestorContainer (hd (ranges insideSidebar))) RESPONSE_SELECTORS \<and>
   wf_range (hd (ranges insideSidebar)) \<and>
   \<not> isInsideSelector (startContainer (hd (ranges insideSidebar))) EXCLUDE_SELECTORS \<and>
   isValidSelectionArea (Some insideSidebar)"
proof -
  have r1: "ranges insideInput = hd (ranges insideInput) # tl (ranges insideInput)"
    and r2: "ranges skySelection = hd (ranges skySelection) # tl (ranges skySelection)"
    and r3: "ranges insideSidebar = hd (ranges insideSidebar) # tl (ranges insideSidebar)"
    by (simp_all add: insideInput_def skySelection_def insideSidebar_def)
  have a1: "isInsideSelector (commonAncestorContainer (hd (ranges insideInput))) EXCLUDE_SELECTORS"
    by code_simp
  have a2:
    "\<not> isInsideSelector (commonAncestorContainer (hd (ranges skySelection))) EXCLUDE_SELECTORS"
    "isInsideSelector (commonAncestorContainer (hd (ranges skySelection))) RESPONSE_SELECTORS"
    by code_simp+
  have a3:
    "\<not> isInsideSelector (commonAncestorContainer (hd (ranges insideSidebar))) EXCLUDE_SELECTORS"
    "\<not> isInsideSelector (commonAncestorContainer (hd (ranges insideSidebar))) RESPONSE_SELECTORS"
    "wf_range (hd (ranges insideSidebar))"
    "\<not> isInsideSelector (startContainer (hd (ranges insideSidebar))) EXCLUDE_SELECTORS"
    by code_simp+
  from isValidSelectionArea_commonAncestor[OF r1] isValidSelectionArea_commonAncestor[OF r2]
    isValidSelectionArea_commonAncestor[OF r3] a1 a2 a3
  show ?thesis by blast
qed

text \<open>
  Claim C9 as stated fails for a selection that starts in the label of a button and ends
  in the text of the response around it: its start point lies inside an excluded region,
  and the selection is accepted.
\<close>

theorem isValidSelectionArea_start_counterexample:
  "wf_range (hd (ranges straddling)) \<and>
   isInsideSelector (startContainer (hd (ranges straddling))) EXCLUDE_SELECTORS \<and>
   isValidSelectionArea (Some straddling)"
  by code_simp

section \<open>Extraction of math\<close>





















text \<open>
  That no element of a fragment is of a kind is what an empty result of
  \<^verbatim>\<open>querySelectorAll\<close> on the fragment says.
\<close>

lemma descendants_fragment:
  "descendants (DocumentFragment xs) = elements (DocumentFragment xs)"
  by (simp add: descendants_def)



















text \<open>
  Claim C4: \<^verbatim>\<open>extractTextWithMath\<close> always returns a string, and when the body of its
  \<^verbatim>\<open>try\<close> block throws, the string is the trimmed visual text of the selection.
\<close>

theorem extractTextWithMath_fails_soft:
  "(\<exists>text. extractTextWithMath selection = Inr text) \<and>
   (\<forall>s e. selection = Some s \<and> ranges s \<noteq> [] \<and> extractBody s = Inl e
      \<longrightarrow> extractTextWithMath selection = Inr (trim (toString s)))"
  by (auto simp: extractTextWithMath_def split: option.splits sum.splits)

text \<open>
  Cloning the contents of a range over the whole document throws; the selection's visual
  text, trimmed, is returned.
\<close>

theorem extractTextWithMath_fails_soft_witness:
  "ranges wholeDocument \<noteq> [] \<and>
   extractBody wholeDocument = Inl HierarchyRequestError \<and>
   extractTextWithMath (Some wholeDocument) = Inr ''Gemini''"
proof -
  have h1: "ranges wholeDocument \<noteq> []"
    by (simp add: wholeDocument_def)
  have h2: "extractBody wholeDocument = Inl HierarchyRequestError"
    by code_simp
  have t: "trim (toString wholeDocument) = ''Gemini''"
    by code_simp
  from extractTextWithMath_fails_soft[of "Some wholeDocument"] h1 h2
  have "extractTextWithMath (Some wholeDocument) = Inr (trim (toString wholeDocument))"
    by blast
  with h1 h2 t show ?thesis
    by simp
qed

section \<open>Compose and send\<close>

subsection \<open>What the handlers leave alone\<close>












subsection \<open>The invariant of the send path\<close>













subsection \<open>A failed injection\<close>

text \<open>
  Claim C3, as the code has it.  \<open>composeAndSend\<close> clears the quote before it injects
  (``Clear the quote chip first''), so when the injection of the composed message fails
  the quote session is already gone: the quoted text and its display text are empty and
  the chip, if it exists, is hidden.  What does hold on that path is that nothing is sent:
  the bypass flag, the pending timers and the log of effects are as they were, so no
  synthesized send is scheduled and none reaches the host.
\<close>

theorem composeAndSend_injection_fails:
  assumes "quotedText s \<noteq> []"
    and "\<not> injectFormattedText h (fullMessage (citationFormat s) (quotedText s) (getUserInput h))"
  shows "composeAndSend h s = hideQuoteChip s \<and>
         quotedText (composeAndSend h s) = [] \<and>
         quotedDisplayText (composeAndSend h s) = [] \<and>
         (chipEl s \<longrightarrow> \<not> chipVisible (composeAndSend h s)) \<and>
         isBypassingSend (composeAndSend h s) = isBypassingSend s \<and>
         timers (composeAndSend h s) = timers s \<and>
         effects (composeAndSend h s) = effects s"
  using assms by (simp add: composeAndSend_def hideQuoteChip_def Let_def)

theorem composeAndSend_injection_fails_witness:
  "quotedText quoted \<noteq> [] \<and>
   \<not> injectFormattedText pageWithoutInput
       (fullMessage (citationFormat quoted) (quotedText quoted) (getUserInput pageWithoutInput)) \<and>
   chipEl quoted \<and>
   composeAndSend pageWithoutInput quoted = hideQuoteChip quoted \<and>
   quotedText (composeAndSend pageWithoutInput quoted) = [] \<and>
   quotedDisplayText (composeAndSend pageWithoutInput quoted) = [] \<and>
   \<not> chipVisible (composeAndSend pageWithoutInput quoted) \<and>
   isBypassingSend (composeAndSend pageWithoutInput quoted) = isBypassingSend quoted \<and>
   timers (composeAndSend pageWithoutInput quoted) = timers quoted \<and>
   effects (composeAndSend pageWithoutInput quoted) = effects quoted"
proof -
  have h1: "quotedText quoted \<noteq> []" by code_simp
  have h2: "\<not> injectFormattedText pageWithoutInput
       (fullMessage (citationFormat quoted) (quotedText quoted) (getUserInput pageWithoutInput))"
    by (simp add: injectFormattedText_def pageWithoutInput_def)
  have h3: "chipEl quoted" by code_simp
  from composeAndSend_injection_fails[OF h1 h2] h1 h2 h3 show ?thesis
    by blast
qed

text \<open>
  Claim C3 as stated fails: the quote ``The sky is blue'' is active, the send is composed
  on a page where no input element is found; the injection fails and the quote is lost.
\<close>

theorem composeAndSend_keeps_quote_counterexample:
  "quotedText quoted = ''The sky is blue'' \<and>
   \<not> injectFormattedText pageWithoutInput
       (fullMessage (citationFormat quoted) (quotedText quoted) (getUserInput pageWithoutInput)) \<and>
   quotedText (composeAndSend pageWithoutInput quoted) = [] \<and>
   quotedDisplayText (composeAndSend pageWithoutInput quoted) = []"
  by code_simp

section \<open>The display text of a quote\<close>

text \<open>
  Claim C7, as the code has it.  When the bubble is clicked after a valid selection whose
  extracted text is not empty, the quoted text is the extracted text and the display text
  is the trimmed visual text of the selection when that is not empty, and the extracted
  text otherwise (\<open>visibleText || text\<close> in \<open>showQuoteChip\<close>).
\<close>

theorem captured_display_text:
  assumes "getSelection h = Some sel" and "extractTextWithMath (Some sel) = Inr text"
    and "text \<noteq> []" and "isValidSelectionArea (Some sel)"
  shows "quotedText (handleBubbleClick (readSelection h s)) = text \<and>
         quotedDisplayText (handleBubbleClick (readSelection h s))
           = (if trim (toString sel) \<noteq> [] then trim (toString sel) else text)"
  using assms
  by (simp add: readSelection_def handleBubbleClick_def showBubble_def showQuoteChip_def
      hideBubble_def Let_def)

theorem captured_display_text_witness:
  "getSelection page = Some skySelection \<and>
   extractTextWithMath (Some skySelection) = Inr ''The sky is blue'' \<and>
   ''The sky is blue'' \<noteq> [] \<and>
   isValidSelectionArea (Some skySelection) \<and>
   quotedText (handleBubbleClick (readSelection page init)) = ''The sky is blue'' \<and>
   quotedDisplayText (handleBubbleClick (readSelection page init)) = ''The sky is blue''"
proof -
  have h1: "getSelection page = Some skySelection" by (simp add: page_def)
  have h2: "extractTextWithMath (Some skySelection) = Inr ''The sky is blue''" by code_simp
  have h3: "''The sky is blue'' \<noteq> []" by simp
  have h4: "isValidSelectionArea (Some skySelection)" by code_simp
  have t: "trim (toString skySelection) = ''The sky is blue''" by code_simp
  from captured_display_text[OF h1 h2 h3 h4, of init] h1 h2 h3 h4 t show ?thesis
    by simp
qed

text \<open>
  Claim C7 as stated fails for a click inside a rendered formula: the selection is
  collapsed, its visual text is empty, the extraction finds the formula's source through
  the enclosing \<open>data-math\<close> element.  The display text of the quote is the extracted
  text, not the (empty) visual text.
\<close>

theorem display_text_counterexample:
  "trim (toString equationClick) = [] \<and>
   quotedText (run (capture equationPage) init) = ''$x^2$'' \<and>
   quotedDisplayText (run (capture equationPage) init) = ''$x^2$''"
  by code_simp

section \<open>One send for one gesture\<close>

text \<open>
  A send gesture of the user that is intercepted with a quote at hand and whose message is
  injected delivers nothing itself, sets the bypass flag and leaves the re-send pending.
\<close>

lemma delivered_hideQuoteChip: "delivered (hideQuoteChip s) = delivered s"
  by (simp add: delivered_def hideQuoteChip_def Let_def)










end
